theory Spec2Isabelle
  imports Main
begin

section \<open>Python values, calls and exceptions\<close>

text \<open>
  An exception is its class name and its message. An exception raised by the interpreter
  while it evaluates a line of the module and one raised inside the target function have
  the same representation, as in Python.
\<close>

datatype exn = Exn string string

text \<open>
  The module \<^verbatim>\<open>pipeit.py\<close> moves Python values between argument lists and never looks
  inside them, with one exception: \<^verbatim>\<open>pipestar\<close> unpacks the piped value with \<^verbatim>\<open>*arg\<close>,
  which iterates it. The values are: scalars; the ordered containers; opaque callables,
  named by a string (\<open>PyFun\<close> a function written in Python, \<open>PyBuiltin\<close> a builtin one);
  and lazy iterables (a generator, or the object that \<^verbatim>\<open>filter\<close>, \<^verbatim>\<open>map\<close> or
  \<^verbatim>\<open>reversed\<close> returns, as in the module's \<^verbatim>\<open>test()\<close>). Iterating a lazy iterable runs
  code: \<open>PyLazy cls run\<close> is an object of class \<open>cls\<close> whose iteration to the end, started
  in state \<open>s\<close>, is \<open>run s\<close> : it either yields the listed items or raises, and it leaves
  a new state. The module iterates a piped value at most once. The type parameter \<open>'s\<close> is the state that the code outside the module
  (target functions, lazy iterables) reads and writes.
\<close>

datatype 's pyval =
    PyNone
  | PyBool bool
  | PyInt int
  | PyStr string
  | PyList "'s pyval list"
  | PyTuple "'s pyval list"
  | PyFun string
  | PyBuiltin string
  | PyLazy string "'s \<Rightarrow> (exn + 's pyval list) \<times> 's"

text \<open>
  The iteration protocol used by \<^verbatim>\<open>*arg\<close> in a call, which runs the iterable to its
  end: lists, tuples and strings yield their elements in order and change nothing; a lazy
  iterable runs its code; the other values have no \<^verbatim>\<open>__iter__\<close> (the result \<open>None\<close>).
  An iteration that never ends is not modelled.
\<close>

fun py_iter :: "'s pyval \<Rightarrow> 's \<Rightarrow> ((exn + 's pyval list) \<times> 's) option" where
  "py_iter (PyList xs) s = Some (Inr xs, s)"
| "py_iter (PyTuple xs) s = Some (Inr xs, s)"
| "py_iter (PyStr str) s = Some (Inr (map (\<lambda>c. PyStr [c]) str), s)"
| "py_iter (PyLazy cls run) s = Some (run s)"
| "py_iter PyNone s = None"
| "py_iter (PyBool b) s = None"
| "py_iter (PyInt i) s = None"
| "py_iter (PyFun n) s = None"
| "py_iter (PyBuiltin n) s = None"

fun type_name :: "'s pyval \<Rightarrow> string" where
  "type_name PyNone = ''NoneType''"
| "type_name (PyBool b) = ''bool''"
| "type_name (PyInt i) = ''int''"
| "type_name (PyStr str) = ''str''"
| "type_name (PyList xs) = ''list''"
| "type_name (PyTuple xs) = ''tuple''"
| "type_name (PyFun n) = ''function''"
| "type_name (PyBuiltin n) = ''builtin_function_or_method''"
| "type_name (PyLazy cls run) = cls"

text \<open>
  The arguments of one call \<^verbatim>\<open>f(*pos, **kw)\<close>: the positional arguments in order and the
  keyword arguments in the order they were given.
\<close>

record 's call =
  pos :: "'s pyval list"
  kw :: "(string \<times> 's pyval) list"

text \<open>
  The program state: the calls that the code of the module has made to the target
  function so far, in order, and the state that the code outside the module reads and
  writes. The module has no state of its own after import.
\<close>

record 's world =
  trace :: "'s call list"
  st :: 's

type_synonym 's outcome = "(exn + 's pyval) \<times> 's world"

text \<open>
  A target function is any Python callable: it gets the arguments of the call and the
  state it can see, returns a value or raises, and leaves a new state. Arity and type
  errors at the call are outcomes of the target.
\<close>

type_synonym 's target = "'s call \<Rightarrow> 's \<Rightarrow> (exn + 's pyval) \<times> 's"

definition invoke :: "'s target \<Rightarrow> 's call \<Rightarrow> 's world \<Rightarrow> 's outcome" where
  "invoke func c w =
     (case func c (st w) of (r, s') \<Rightarrow> (r, \<lparr>trace = trace w @ [c], st = s'\<rparr>))"

section \<open>The capture object and its class\<close>

text \<open>
  Each decorator defines a local class \<^verbatim>\<open>Wrapper\<close> with
  \<^verbatim>\<open>__slots__ = ('args', 'kwargs')\<close>, a \<^verbatim>\<open>__new__\<close> that stores its two arguments in
  the slots, and \<^verbatim>\<open>__ror__\<close>. The class defines no other method; in particular it has
  no \<^verbatim>\<open>__call__\<close>.
\<close>

record 's capture =
  args :: "'s pyval list"
  kwargs :: "(string \<times> 's pyval) list"

record 's pyclass =
  dunder_new :: "'s pyval list \<Rightarrow> (string \<times> 's pyval) list \<Rightarrow> 's capture"
  dunder_ror :: "('s capture \<Rightarrow> 's pyval \<Rightarrow> 's world \<Rightarrow> 's outcome) option"
  dunder_call :: "('s capture \<Rightarrow> 's call \<Rightarrow> 's world \<Rightarrow> 's outcome) option"

text \<open>
  What a decorator returns: the function \<^verbatim>\<open>wrapper\<close>, which closes over the class
  \<^verbatim>\<open>Wrapper\<close>. (\<^verbatim>\<open>functools.wraps\<close> copies the name and the docstring of the target
  onto \<^verbatim>\<open>wrapper\<close>; it does not change what a call does.)
\<close>

record 's factory =
  Wrapper :: "'s pyclass"
  wrapper ::
    "'s pyval list \<Rightarrow> (string \<times> 's pyval) list \<Rightarrow> 's world \<Rightarrow> (exn + 's capture) \<times> 's world"

subsection \<open>\<^verbatim>\<open>pipe\<close>, lines 30 to 65\<close>

definition pipe_Wrapper :: "'s target \<Rightarrow> 's pyclass" where
  "pipe_Wrapper func =
     \<lparr>dunder_new = (\<lambda>as ks. \<lparr>args = as, kwargs = ks\<rparr>),
      dunder_ror = Some (\<lambda>self arg. invoke func \<lparr>pos = args self @ [arg], kw = kwargs self\<rparr>),
      dunder_call = None\<rparr>"

definition pipe :: "'s target \<Rightarrow> 's factory" where
  "pipe func =
     \<lparr>Wrapper = pipe_Wrapper func,
      wrapper = (\<lambda>as ks w. (Inr (dunder_new (pipe_Wrapper func) as ks), w))\<rparr>"

subsection \<open>\<^verbatim>\<open>pipe0\<close>, lines 67 to 94\<close>

text \<open>
  Line 90 reads \<^verbatim>\<open>return func(*self.args, arg, **self.kwargs)\<close>, the same text as line 61
  of \<^verbatim>\<open>pipe\<close>.
\<close>

definition pipe0_Wrapper :: "'s target \<Rightarrow> 's pyclass" where
  "pipe0_Wrapper func =
     \<lparr>dunder_new = (\<lambda>as ks. \<lparr>args = as, kwargs = ks\<rparr>),
      dunder_ror = Some (\<lambda>self arg. invoke func \<lparr>pos = args self @ [arg], kw = kwargs self\<rparr>),
      dunder_call = None\<rparr>"

definition pipe0 :: "'s target \<Rightarrow> 's factory" where
  "pipe0 func =
     \<lparr>Wrapper = pipe0_Wrapper func,
      wrapper = (\<lambda>as ks w. (Inr (dunder_new (pipe0_Wrapper func) as ks), w))\<rparr>"

subsection \<open>\<^verbatim>\<open>pipestar\<close>, lines 96 to 117\<close>

text \<open>
  Line 113 reads \<^verbatim>\<open>return func(*self.args, *arg, **self.kwargs)\<close>. The interpreter builds
  the positional arguments before it calls \<^verbatim>\<open>func\<close>, and for that it iterates \<^verbatim>\<open>arg\<close> to
  its end. When \<^verbatim>\<open>arg\<close> is not iterable it raises \<^verbatim>\<open>TypeError\<close> there; when the
  iteration itself raises, that exception leaves \<^verbatim>\<open>__ror__\<close>. In both cases \<^verbatim>\<open>func\<close> is
  not called. Otherwise \<^verbatim>\<open>func\<close> is called in the state that the iteration left.
\<close>

definition not_iterable :: "'s pyval \<Rightarrow> exn" where
  "not_iterable v = Exn ''TypeError'' (''Value after * must be an iterable, not '' @ type_name v)"

definition pipestar_Wrapper :: "'s target \<Rightarrow> 's pyclass" where
  "pipestar_Wrapper func =
     \<lparr>dunder_new = (\<lambda>as ks. \<lparr>args = as, kwargs = ks\<rparr>),
      dunder_ror = Some (\<lambda>self arg w.
        case py_iter arg (st w) of
          None \<Rightarrow> (Inl (not_iterable arg), w)
        | Some (Inl e, s') \<Rightarrow> (Inl e, w\<lparr>st := s'\<rparr>)
        | Some (Inr xs, s') \<Rightarrow>
            invoke func \<lparr>pos = args self @ xs, kw = kwargs self\<rparr> (w\<lparr>st := s'\<rparr>)),
      dunder_call = None\<rparr>"

definition pipestar :: "'s target \<Rightarrow> 's factory" where
  "pipestar func =
     \<lparr>Wrapper = pipestar_Wrapper func,
      wrapper = (\<lambda>as ks w. (Inr (dunder_new (pipestar_Wrapper func) as ks), w))\<rparr>"

section \<open>The operations of the interpreter on a capture\<close>

text \<open>
  \<^verbatim>\<open>x | obj\<close> with \<^verbatim>\<open>x\<close> one of the values above: the type of \<^verbatim>\<open>x\<close> has no \<^verbatim>\<open>__or__\<close> that
  accepts a \<^verbatim>\<open>Wrapper\<close>, so the interpreter calls the reflected method of the class of
  \<^verbatim>\<open>obj\<close>, and raises \<^verbatim>\<open>TypeError\<close> when the class has none.
\<close>

definition unsupported_operand :: exn where
  "unsupported_operand = Exn ''TypeError'' ''unsupported operand type(s) for |''"

definition not_callable :: exn where
  "not_callable =
     Exn ''TypeError'' (CHR 0x27 # ''Wrapper'' @ CHR 0x27 # '' object is not callable'')"

definition binary_or :: "'s pyclass \<Rightarrow> 's pyval \<Rightarrow> 's capture \<Rightarrow> 's world \<Rightarrow> 's outcome" where
  "binary_or cls x self w =
     (case dunder_ror cls of
        None \<Rightarrow> (Inl unsupported_operand, w)
      | Some m \<Rightarrow> m self x w)"

text \<open>\<^verbatim>\<open>obj(*pos, **kw)\<close>: the interpreter calls \<^verbatim>\<open>__call__\<close> of the class, and raises
  \<^verbatim>\<open>TypeError\<close> when the class has none.\<close>

definition call_object :: "'s pyclass \<Rightarrow> 's capture \<Rightarrow> 's call \<Rightarrow> 's world \<Rightarrow> 's outcome" where
  "call_object cls self c w =
     (case dunder_call cls of
        None \<Rightarrow> (Inl not_callable, w)
      | Some m \<Rightarrow> m self c w)"

text \<open>
  The expression \<^verbatim>\<open>x | factory(*as, **ks)\<close>: the right operand is evaluated, which creates
  the capture, and then the operator is applied.
\<close>

definition pipe_expr ::
  "'s pyval \<Rightarrow> 's factory \<Rightarrow> 's pyval list \<Rightarrow> (string \<times> 's pyval) list \<Rightarrow> 's world \<Rightarrow>
     's outcome" where
  "pipe_expr x d as ks w =
     (case wrapper d as ks w of
        (Inl e, w') \<Rightarrow> (Inl e, w')
      | (Inr self, w') \<Rightarrow> binary_or (Wrapper d) x self w')"

section \<open>The doctests of the docstrings\<close>

text \<open>
  The docstrings of \<^verbatim>\<open>pipe\<close> and \<^verbatim>\<open>pipe0\<close> each declare a function \<^verbatim>\<open>add_if_less\<close> with
  the body \<^verbatim>\<open>return sum(x for x in xs if x<n)\<close>, pipe \<^verbatim>\<open>range(10)\<close> into
  \<^verbatim>\<open>add_if_less(6)\<close> and show the result \<^verbatim>\<open>15\<close>. Under \<^verbatim>\<open>pipe\<close> the parameters are
  \<^verbatim>\<open>(n, xs)\<close>, under \<^verbatim>\<open>pipe0\<close> they are \<^verbatim>\<open>(xs, n)\<close>.

  The body is modelled on integers, which is what the doctests use: \<^verbatim>\<open>xs\<close> is iterated
  to its end (a value that is not iterable raises \<^verbatim>\<open>TypeError\<close> before anything is
  compared), and then each element is compared with \<^verbatim>\<open>n\<close>; a comparison that involves a
  value other than an integer is reported as \<^verbatim>\<open>TypeError\<close>.
\<close>

fun sum_less :: "int \<Rightarrow> 's pyval list \<Rightarrow> 's pyval \<Rightarrow> exn + 's pyval" where
  "sum_less acc [] n = Inr (PyInt acc)"
| "sum_less acc (PyInt x # xs) (PyInt n) = sum_less (if x < n then acc + x else acc) xs (PyInt n)"
| "sum_less acc (x # xs) n =
     Inl (Exn ''TypeError''
       (''< not supported between instances of '' @ type_name x @ '' and '' @ type_name n))"

definition object_not_iterable :: "'s pyval \<Rightarrow> exn" where
  "object_not_iterable v =
     Exn ''TypeError'' (CHR 0x27 # type_name v @ CHR 0x27 # '' object is not iterable'')"

definition add_if_less_body :: "'s pyval \<Rightarrow> 's pyval \<Rightarrow> 's \<Rightarrow> (exn + 's pyval) \<times> 's" where
  "add_if_less_body n xs s =
     (case py_iter xs s of
        None \<Rightarrow> (Inl (object_not_iterable xs), s)
      | Some (Inl e, s') \<Rightarrow> (Inl e, s')
      | Some (Inr vs, s') \<Rightarrow> (sum_less 0 vs n, s'))"

definition arity_error :: exn where
  "arity_error = Exn ''TypeError'' ''add_if_less() takes 2 positional arguments''"

text \<open>\<^verbatim>\<open>def add_if_less(n, xs)\<close> of the docstring of \<^verbatim>\<open>pipe\<close>.\<close>

definition add_if_less :: "'s target" where
  "add_if_less c s =
     (case (pos c, kw c) of
        ([n, xs], []) \<Rightarrow> add_if_less_body n xs s
      | _ \<Rightarrow> (Inl arity_error, s))"

text \<open>\<^verbatim>\<open>def add_if_less(xs, n)\<close> of the docstring of \<^verbatim>\<open>pipe0\<close>.\<close>

definition add_if_less0 :: "'s target" where
  "add_if_less0 c s =
     (case (pos c, kw c) of
        ([xs, n], []) \<Rightarrow> add_if_less_body n xs s
      | _ \<Rightarrow> (Inl arity_error, s))"

text \<open>\<^verbatim>\<open>range(10)\<close>, as the sequence of its elements.\<close>

definition range10 :: "'s pyval" where
  "range10 = PyList (map PyInt [0, 1, 2, 3, 4, 5, 6, 7, 8, 9])"

text \<open>
  A lazy iterable that raises when it is iterated: the object \<^verbatim>\<open>map(int, ['x'])\<close>, whose
  first item would be \<^verbatim>\<open>int('x')\<close>.
\<close>

definition invalid_literal :: exn where
  "invalid_literal =
     Exn ''ValueError'' (''invalid literal for int() with base 10: '' @ [CHR 0x27, CHR ''x'', CHR 0x27])"

definition raising_map :: "'s pyval" where
  "raising_map = PyLazy ''map'' (\<lambda>s. (Inl invalid_literal, s))"

section \<open>The library function \<^verbatim>\<open>functools.reduce\<close>\<close>

text \<open>
  Line 136 wraps \<^verbatim>\<open>functools.reduce\<close>, which is not part of the module. This is
  \<^verbatim>\<open>reduce(function, iterable[, initial])\<close> as CPython implements it up to version 3.13: it
  takes positional arguments only, and a call with any keyword argument raises
  \<^verbatim>\<open>TypeError\<close> before the other arguments are looked at. (From version 3.14 on,
  \<^verbatim>\<open>initial\<close> may also be given by keyword.) With two or three positional arguments the
  function is folded over the items from the left, starting from \<^verbatim>\<open>initial\<close> when it is
  given and from the first item otherwise. The iterable is run to its end before the
  function is first called.

  Calling a callable value is the business of the interpreter: \<open>call_value f as s\<close> is the
  outcome of \<^verbatim>\<open>f(*as)\<close> in state \<open>s\<close>, and is a parameter.
\<close>

definition no_keyword_arguments :: exn where
  "no_keyword_arguments = Exn ''TypeError'' ''reduce() takes no keyword arguments''"

function show_nat :: "nat \<Rightarrow> string" where
  "show_nat n =
     (if n < 10 then [char_of (48 + n)] else show_nat (n div 10) @ [char_of (48 + n mod 10)])"
  by pat_completeness auto
termination
  by (relation "measure id") auto

definition reduce_argument_count :: "nat \<Rightarrow> exn" where
  "reduce_argument_count n =
     Exn ''TypeError''
       ((if n < 2 then ''reduce expected at least 2 arguments, got ''
         else ''reduce expected at most 3 arguments, got '') @ show_nat n)"

definition reduce_not_iterable :: exn where
  "reduce_not_iterable = Exn ''TypeError'' ''reduce() arg 2 must support iteration''"

definition reduce_empty :: exn where
  "reduce_empty = Exn ''TypeError'' ''reduce() of empty iterable with no initial value''"

fun fold_values ::
  "('s pyval list \<Rightarrow> 's \<Rightarrow> (exn + 's pyval) \<times> 's) \<Rightarrow> 's pyval \<Rightarrow> 's pyval list \<Rightarrow> 's \<Rightarrow>
     (exn + 's pyval) \<times> 's" where
  "fold_values fn acc [] s = (Inr acc, s)"
| "fold_values fn acc (x # xs) s =
     (case fn [acc, x] s of
        (Inl e, s') \<Rightarrow> (Inl e, s')
      | (Inr v, s') \<Rightarrow> fold_values fn v xs s')"

definition functools_reduce ::
  "('s pyval \<Rightarrow> 's pyval list \<Rightarrow> 's \<Rightarrow> (exn + 's pyval) \<times> 's) \<Rightarrow> 's target" where
  "functools_reduce call_value c s =
     (if kw c = [] then
        (case pos c of
           [function, iterable] \<Rightarrow>
             (case py_iter iterable s of
                None \<Rightarrow> (Inl reduce_not_iterable, s)
              | Some (Inl e, s') \<Rightarrow> (Inl e, s')
              | Some (Inr [], s') \<Rightarrow> (Inl reduce_empty, s')
              | Some (Inr (x # xs), s') \<Rightarrow> fold_values (call_value function) x xs s')
         | [function, iterable, initial] \<Rightarrow>
             (case py_iter iterable s of
                None \<Rightarrow> (Inl reduce_not_iterable, s)
              | Some (Inl e, s') \<Rightarrow> (Inl e, s')
              | Some (Inr xs, s') \<Rightarrow> fold_values (call_value function) initial xs s')
         | _ \<Rightarrow> (Inl (reduce_argument_count (length (pos c))), s))
      else (Inl no_keyword_arguments, s))"

text \<open>
  For the example below: the call \<^verbatim>\<open>f(*as)\<close> where \<^verbatim>\<open>f\<close> is \<^verbatim>\<open>operator.add\<close>, on
  integers.
\<close>

definition call_operator_add ::
  "'s pyval \<Rightarrow> 's pyval list \<Rightarrow> 's \<Rightarrow> (exn + 's pyval) \<times> 's" where
  "call_operator_add f as s =
     (case as of
        [PyInt a, PyInt b] \<Rightarrow> (Inr (PyInt (a + b)), s)
      | _ \<Rightarrow> (Inl (Exn ''TypeError'' ''unsupported operand type(s) for +''), s))"

section \<open>The registrations at import, lines 119 to 139\<close>

text \<open>
  Names are bound to objects, and an object has an identity: its index in the list of
  the objects created so far. The library functions that the module looks up with
  \<^verbatim>\<open>getattr\<close> are named by their module and attribute; \<^verbatim>\<open>Factory d t\<close> is the object
  that decorator \<open>d\<close> returned for the library function \<open>t\<close>.
\<close>

datatype decorator = Pipe | Pipe0 | Pipestar

datatype pymodule = Builtins | Functools | Itertools | StrType

type_synonym libfun = "pymodule \<times> string"

datatype obj =
    ModuleObj pymodule
  | FunObj string
  | StrObj string
  | GlobalsDict
  | Decorator decorator
  | Factory decorator libfun

record namespace =
  globals :: "string \<rightharpoonup> nat"
  heap :: "obj list"
  dunder_all :: "string list"

definition alloc :: "obj \<Rightarrow> namespace \<Rightarrow> nat \<times> namespace" where
  "alloc ob ns = (length (heap ns), ns\<lparr>heap := heap ns @ [ob]\<rparr>)"

definition bind_name :: "string \<Rightarrow> nat \<Rightarrow> namespace \<Rightarrow> namespace" where
  "bind_name name i ns = ns\<lparr>globals := (globals ns)(name \<mapsto> i)\<rparr>"

definition unbind :: "string \<Rightarrow> namespace \<Rightarrow> namespace" where
  "unbind name ns = ns\<lparr>globals := (globals ns)(name := None)\<rparr>"

definition assign_new :: "string \<Rightarrow> obj \<Rightarrow> namespace \<Rightarrow> namespace" where
  "assign_new name ob ns = (case alloc ob ns of (i, ns') \<Rightarrow> bind_name name i ns')"

text \<open>\<^verbatim>\<open>str.split()\<close> without arguments: the maximal runs of characters that are not
  whitespace.\<close>

definition is_space :: "char \<Rightarrow> bool" where
  "is_space c = (c = CHR '' '' \<or> c = CHR 0x09 \<or> c = CHR 0x0A \<or> c = CHR 0x0B
     \<or> c = CHR 0x0C \<or> c = CHR 0x0D)"

fun split_from :: "string \<Rightarrow> string \<Rightarrow> string list" where
  "split_from cur [] = (if cur = [] then [] else [cur])"
| "split_from cur (c # cs) =
     (if is_space c then (if cur = [] then split_from [] cs else cur # split_from [] cs)
      else split_from (cur @ [c]) cs)"

definition py_split :: "string \<Rightarrow> string list" where
  "py_split s = split_from [] s"

text \<open>
  The state after lines 1 to 117: the three imported modules, \<^verbatim>\<open>wraps\<close>, the three
  decorators, and \<^verbatim>\<open>__all__ = ['pipe', 'pipe0', 'pipestar']\<close>.
\<close>

definition after_definitions :: namespace where
  "after_definitions =
     assign_new ''pipestar'' (Decorator Pipestar)
       (assign_new ''pipe0'' (Decorator Pipe0)
         (assign_new ''pipe'' (Decorator Pipe)
           (assign_new ''wraps'' (FunObj ''wraps'')
             (assign_new ''itertools'' (ModuleObj Itertools)
               (assign_new ''functools'' (ModuleObj Functools)
                 (assign_new ''builtins'' (ModuleObj Builtins)
                   \<lparr>globals = Map.empty, heap = [],
                    dunder_all = [''pipe'', ''pipe0'', ''pipestar'']\<rparr>))))))"

text \<open>
  One statement \<^verbatim>\<open>_g[name] = _g['p'+name] = d(t)\<close> followed by
  \<^verbatim>\<open>__all__.append('p'+name)\<close>: the decorator is called once, and its result is
  assigned to the targets from left to right.
\<close>

definition install :: "decorator \<Rightarrow> libfun \<Rightarrow> string \<Rightarrow> namespace \<Rightarrow> namespace" where
  "install d t name ns =
     (case alloc (Factory d t) ns of
        (i, ns') \<Rightarrow>
          (bind_name (''p'' @ name) i (bind_name name i ns'))
            \<lparr>dunder_all := dunder_all ns' @ [''p'' @ name]\<rparr>)"

text \<open>One round of \<^verbatim>\<open>for name in ...: _g[name] = _g['p'+name] = d(getattr(m, name))\<close>;
  the loop variable \<^verbatim>\<open>name\<close> is a global of the module too.\<close>

definition register :: "decorator \<Rightarrow> pymodule \<Rightarrow> namespace \<Rightarrow> string \<Rightarrow> namespace" where
  "register d m ns name = install d (m, name) name (assign_new ''name'' (StrObj name) ns)"

definition builtin_names :: string where
  "builtin_names = ''all any dict enumerate filter len list min map max '' @
     ''reversed set sum tuple zip''"

definition itertools_names :: string where
  "itertools_names = ''accumulate chain compress cycle dropwhile filterfalse groupby '' @
     ''product repeat starmap takewhile tee zip_longest''"

definition after_builtins :: namespace where
  "after_builtins =
     foldl (register Pipe Builtins) (assign_new ''_g'' GlobalsDict after_definitions)
       (py_split builtin_names)"

definition after_print :: namespace where
  "after_print = foldl (register Pipestar Builtins) after_builtins (py_split ''print'')"

definition after_join :: namespace where
  "after_join = install Pipe (StrType, ''join'') ''join'' after_print"

definition after_itertools :: namespace where
  "after_itertools = foldl (register Pipe Itertools) after_join (py_split itertools_names)"

definition after_reduce :: namespace where
  "after_reduce = foldl (register Pipe Functools) after_itertools (py_split ''reduce'')"

text \<open>The namespace of the imported module: \<^verbatim>\<open>del _g\<close>, then \<^verbatim>\<open>def test\<close>.\<close>

definition module_namespace :: namespace where
  "module_namespace = assign_new ''test'' (FunObj ''test'') (unbind ''_g'' after_reduce)"

definition object_of :: "namespace \<Rightarrow> string \<Rightarrow> (nat \<times> obj) option" where
  "object_of ns name =
     (case globals ns name of
        None \<Rightarrow> None
      | Some i \<Rightarrow> (if i < length (heap ns) then Some (i, heap ns ! i) else None))"

text \<open>
  The factory that a name of the module stands for, given the library: the functions
  that \<^verbatim>\<open>getattr(builtins, name)\<close>, \<^verbatim>\<open>getattr(itertools, name)\<close>,
  \<^verbatim>\<open>getattr(functools, name)\<close> and \<^verbatim>\<open>str.join\<close> return. The library is not part of the
  module and is a parameter.
\<close>

definition decorate :: "decorator \<Rightarrow> 's target \<Rightarrow> 's factory" where
  "decorate d func =
     (case d of Pipe \<Rightarrow> pipe func | Pipe0 \<Rightarrow> pipe0 func | Pipestar \<Rightarrow> pipestar func)"

definition factory_of :: "(libfun \<Rightarrow> 's target) \<Rightarrow> namespace \<Rightarrow> string \<Rightarrow> 's factory option" where
  "factory_of lib ns name =
     (case object_of ns name of
        Some (i, Factory d t) \<Rightarrow> Some (decorate d (lib t))
      | _ \<Rightarrow> None)"

section \<open>Predicates on the namespace\<close>

text \<open>
  A name \<open>n\<close> exposes the library function \<open>t\<close> wrapped by decorator \<open>d\<close> when \<open>n\<close> and
  \<^verbatim>\<open>'p'+n\<close> are bound to one and the same object, and that object is what \<open>d\<close>
  returned for \<open>t\<close>.
\<close>

definition exposes :: "namespace \<Rightarrow> decorator \<Rightarrow> libfun \<Rightarrow> string \<Rightarrow> bool" where
  "exposes ns d t name =
     (case object_of ns name of
        None \<Rightarrow> False
      | Some (i, ob) \<Rightarrow> ob = Factory d t \<and> object_of ns (''p'' @ name) = Some (i, Factory d t))"

definition independent :: "string \<Rightarrow> string \<Rightarrow> bool" where
  "independent m n = (m \<noteq> n \<and> m \<noteq> ''p'' @ n \<and> ''p'' @ m \<noteq> n)"

text \<open>
  Registering \<open>m\<close> assigns to \<open>m\<close> and to \<^verbatim>\<open>'p'+m\<close>; it leaves the two names of \<open>n\<close>
  alone when the names are independent. The module also assigns to \<^verbatim>\<open>name\<close>, \<^verbatim>\<open>_g\<close>
  and \<^verbatim>\<open>test\<close>.
\<close>

definition plain :: "string \<Rightarrow> bool" where
  "plain n = list_all (\<lambda>k. k \<noteq> n \<and> k \<noteq> ''p'' @ n) [''name'', ''_g'', ''test'']"

fun loop_ok :: "string list \<Rightarrow> bool" where
  "loop_ok [] = True"
| "loop_ok (n # ms) = (plain n \<and> list_all (\<lambda>m. independent m n) ms \<and> loop_ok ms)"

section \<open>Properties\<close>

subsection \<open>The pipe expression under each decorator\<close>

lemma pipe_expr_pipe:
  "pipe_expr x (pipe f) as ks w = invoke f \<lparr>pos = as @ [x], kw = ks\<rparr> w"
  by (simp add: pipe_expr_def pipe_def pipe_Wrapper_def binary_or_def)

lemma pipe_expr_pipe0:
  "pipe_expr x (pipe0 f) as ks w = invoke f \<lparr>pos = as @ [x], kw = ks\<rparr> w"
  by (simp add: pipe_expr_def pipe0_def pipe0_Wrapper_def binary_or_def)


lemma invoke_eq:
  "invoke f c w = (r, w') \<longleftrightarrow> trace w' = trace w @ [c] \<and> f c (st w) = (r, st w')"
  by (cases "f c (st w)"; cases w') (auto simp: invoke_def)

lemma ror_pipe:
  "binary_or (Wrapper (pipe f)) x self w = invoke f \<lparr>pos = args self @ [x], kw = kwargs self\<rparr> w"
  by (simp add: binary_or_def pipe_def pipe_Wrapper_def)

lemma ror_pipe0:
  "binary_or (Wrapper (pipe0 f)) x self w = invoke f \<lparr>pos = args self @ [x], kw = kwargs self\<rparr> w"
  by (simp add: binary_or_def pipe0_def pipe0_Wrapper_def)

lemma ror_pipestar:
  "binary_or (Wrapper (pipestar f)) x self w =
     (case py_iter x (st w) of
        None \<Rightarrow> (Inl (not_iterable x), w)
      | Some (Inl e, s') \<Rightarrow> (Inl e, w\<lparr>st := s'\<rparr>)
      | Some (Inr xs, s') \<Rightarrow>
          invoke f \<lparr>pos = args self @ xs, kw = kwargs self\<rparr> (w\<lparr>st := s'\<rparr>))"
  by (simp add: binary_or_def pipestar_def pipestar_Wrapper_def)

lemma wrapper_decorate: "wrapper (decorate d f) as ks w = (Inr \<lparr>args = as, kwargs = ks\<rparr>, w)"
  by (cases d)
    (simp_all add: decorate_def pipe_def pipe0_def pipestar_def pipe_Wrapper_def
      pipe0_Wrapper_def pipestar_Wrapper_def)

subsection \<open>The names registered at import\<close>

lemma split_builtin_names:
  "py_split builtin_names =
     [''all'', ''any'', ''dict'', ''enumerate'', ''filter'', ''len'', ''list'', ''min'', ''map'',
      ''max'', ''reversed'', ''set'', ''sum'', ''tuple'', ''zip'']"
  by (simp add: py_split_def builtin_names_def is_space_def)

lemma split_itertools_names:
  "py_split itertools_names =
     [''accumulate'', ''chain'', ''compress'', ''cycle'', ''dropwhile'', ''filterfalse'',
      ''groupby'', ''product'', ''repeat'', ''starmap'', ''takewhile'', ''tee'', ''zip_longest'']"
  by (simp add: py_split_def itertools_names_def is_space_def)

lemma split_print: "py_split ''print'' = [''print'']"
  by (simp add: py_split_def is_space_def)

lemma split_reduce: "py_split ''reduce'' = [''reduce'']"
  by (simp add: py_split_def is_space_def)

lemma object_of_extend:
  assumes "object_of ns k = Some (i, ob)" and "heap ns' = heap ns @ ys"
    and "globals ns' k = globals ns k"
  shows "object_of ns' k = Some (i, ob)"
  using assms by (auto simp: object_of_def nth_append split: option.splits if_splits)

lemma exposes_extend:
  assumes "exposes ns d t n" and "heap ns' = heap ns @ ys"
    and "globals ns' n = globals ns n" and "globals ns' (''p'' @ n) = globals ns (''p'' @ n)"
  shows "exposes ns' d t n"
proof -
  from assms(1) obtain i where a: "object_of ns n = Some (i, Factory d t)"
    and b: "object_of ns (''p'' @ n) = Some (i, Factory d t)"
    by (auto simp: exposes_def split: option.splits)
  have "object_of ns' n = Some (i, Factory d t)"
    using a assms(2,3) by (rule object_of_extend)
  moreover have "object_of ns' (''p'' @ n) = Some (i, Factory d t)"
    using b assms(2,4) by (rule object_of_extend)
  ultimately show ?thesis by (simp add: exposes_def)
qed

lemma heap_install: "heap (install d t n ns) = heap ns @ [Factory d t]"
  by (simp add: install_def alloc_def bind_name_def)

lemma globals_install:
  "globals (install d t n ns) = (globals ns)(n \<mapsto> length (heap ns), ''p'' @ n \<mapsto> length (heap ns))"
  by (simp add: install_def alloc_def bind_name_def)

lemma heap_assign_new: "heap (assign_new k ob ns) = heap ns @ [ob]"
  by (simp add: assign_new_def alloc_def bind_name_def)

lemma globals_assign_new: "globals (assign_new k ob ns) = (globals ns)(k \<mapsto> length (heap ns))"
  by (simp add: assign_new_def alloc_def bind_name_def)

lemma install_exposes: "exposes (install d t n ns) d t n"
  by (simp add: exposes_def object_of_def heap_install globals_install)

lemma register_exposes: "exposes (register d m ns n) d (m, n) n"
  by (simp add: register_def install_exposes)

lemma install_keeps:
  assumes "exposes ns d t n" and "independent m n"
  shows "exposes (install d' t' m ns) d t n"
  using assms(1)
proof (rule exposes_extend)
  show "heap (install d' t' m ns) = heap ns @ [Factory d' t']" by (rule heap_install)
  show "globals (install d' t' m ns) n = globals ns n"
    using assms(2) by (auto simp add: globals_install independent_def)
  show "globals (install d' t' m ns) (''p'' @ n) = globals ns (''p'' @ n)"
    using assms(2) by (auto simp add: globals_install independent_def)
qed

lemma assign_new_keeps:
  assumes "exposes ns d t n" and "k \<noteq> n" and "k \<noteq> ''p'' @ n"
  shows "exposes (assign_new k ob ns) d t n"
  using assms(1)
proof (rule exposes_extend)
  show "heap (assign_new k ob ns) = heap ns @ [ob]" by (rule heap_assign_new)
  show "globals (assign_new k ob ns) n = globals ns n"
    using assms(2) by (simp add: globals_assign_new)
  show "globals (assign_new k ob ns) (''p'' @ n) = globals ns (''p'' @ n)"
    using assms(3) by (simp add: globals_assign_new)
qed

lemma unbind_keeps:
  assumes "exposes ns d t n" and "k \<noteq> n" and "k \<noteq> ''p'' @ n"
  shows "exposes (unbind k ns) d t n"
  using assms(1)
proof (rule exposes_extend)
  show "heap (unbind k ns) = heap ns @ []" by (simp add: unbind_def)
  show "globals (unbind k ns) n = globals ns n"
    using assms(2) by (simp add: unbind_def)
  show "globals (unbind k ns) (''p'' @ n) = globals ns (''p'' @ n)"
    using assms(3) by (simp add: unbind_def)
qed

lemma register_keeps:
  assumes "exposes ns d t n" and "independent m n" and "plain n"
  shows "exposes (register d' mo ns m) d t n"
  unfolding register_def
  using assms by (auto simp: plain_def intro!: install_keeps assign_new_keeps)

lemma loop_keeps:
  assumes "exposes ns d t n" and "list_all (\<lambda>m. independent m n) ms" and "plain n"
  shows "exposes (foldl (register d' mo) ns ms) d t n"
  using assms
proof (induction ms arbitrary: ns)
  case Nil
  then show ?case by simp
next
  case (Cons m ms)
  then show ?case by (simp add: register_keeps)
qed

lemma loop_exposes:
  assumes "loop_ok ms" and "n \<in> set ms"
  shows "exposes (foldl (register d mo) ns ms) d (mo, n) n"
  using assms
proof (induction ms arbitrary: ns)
  case Nil
  then show ?case by simp
next
  case (Cons m ms)
  show ?case
  proof (cases "n \<in> set ms")
    case True
    with Cons show ?thesis by simp
  next
    case False
    with Cons.prems have [simp]: "n = m" by simp
    have "exposes (register d mo ns m) d (mo, m) m" by (rule register_exposes)
    then have "exposes (foldl (register d mo) (register d mo ns m) ms) d (mo, m) m"
      using Cons.prems(1) by (intro loop_keeps) simp_all
    then show ?thesis by simp
  qed
qed


lemma through_end:
  assumes "exposes after_reduce d t n" and "plain n"
  shows "exposes module_namespace d t n"
  unfolding module_namespace_def
  using assms by (auto simp: plain_def intro!: assign_new_keeps unbind_keeps)

lemma through_reduce:
  assumes "exposes after_itertools d t n" and "independent ''reduce'' n" and "plain n"
  shows "exposes after_reduce d t n"
  unfolding after_reduce_def split_reduce
  using assms by (intro loop_keeps) simp_all

lemma through_itertools:
  assumes "exposes after_join d t n"
    and "list_all (\<lambda>m. independent m n) (py_split itertools_names)" and "plain n"
  shows "exposes after_itertools d t n"
  unfolding after_itertools_def
  using assms by (intro loop_keeps)

lemma through_join:
  assumes "exposes after_print d t n" and "independent ''join'' n"
  shows "exposes after_join d t n"
  unfolding after_join_def
  using assms by (rule install_keeps)

lemma through_print:
  assumes "exposes after_builtins d t n" and "independent ''print'' n" and "plain n"
  shows "exposes after_print d t n"
  unfolding after_print_def split_print
  using assms by (intro loop_keeps) simp_all

lemma reduce_exposed: "exposes module_namespace Pipe (Functools, ''reduce'') ''reduce''"
proof -
  have "exposes after_reduce Pipe (Functools, ''reduce'') ''reduce''"
    unfolding after_reduce_def split_reduce
    by (rule loop_exposes) (simp_all add: plain_def)
  then show ?thesis by (rule through_end) (simp add: plain_def)
qed

lemma itertools_exposed:
  assumes "n \<in> set (py_split itertools_names)"
  shows "exposes module_namespace Pipe (Itertools, n) n"
proof -
  have ok: "loop_ok (py_split itertools_names)"
    by (simp add: split_itertools_names plain_def independent_def)
  have later: "list_all (\<lambda>n. independent ''reduce'' n \<and> plain n) (py_split itertools_names)"
    by (simp add: split_itertools_names plain_def independent_def)
  from later assms have a: "independent ''reduce'' n" and b: "plain n"
    by (auto simp: list_all_iff)
  have "exposes after_itertools Pipe (Itertools, n) n"
    unfolding after_itertools_def using ok assms by (rule loop_exposes)
  then have "exposes after_reduce Pipe (Itertools, n) n"
    using a b by (rule through_reduce)
  then show ?thesis using b by (rule through_end)
qed

lemma join_exposed: "exposes module_namespace Pipe (StrType, ''join'') ''join''"
proof -
  have "exposes after_join Pipe (StrType, ''join'') ''join''"
    unfolding after_join_def by (rule install_exposes)
  then have "exposes after_itertools Pipe (StrType, ''join'') ''join''"
    by (rule through_itertools) (simp_all add: split_itertools_names plain_def independent_def)
  then have "exposes after_reduce Pipe (StrType, ''join'') ''join''"
    by (rule through_reduce) (simp_all add: plain_def independent_def)
  then show ?thesis by (rule through_end) (simp add: plain_def)
qed

lemma print_exposed: "exposes module_namespace Pipestar (Builtins, ''print'') ''print''"
proof -
  have "exposes after_print Pipestar (Builtins, ''print'') ''print''"
    unfolding after_print_def split_print
    by (rule loop_exposes) (simp_all add: plain_def)
  then have "exposes after_join Pipestar (Builtins, ''print'') ''print''"
    by (rule through_join) (simp add: independent_def)
  then have "exposes after_itertools Pipestar (Builtins, ''print'') ''print''"
    by (rule through_itertools) (simp_all add: split_itertools_names plain_def independent_def)
  then have "exposes after_reduce Pipestar (Builtins, ''print'') ''print''"
    by (rule through_reduce) (simp_all add: plain_def independent_def)
  then show ?thesis by (rule through_end) (simp add: plain_def)
qed

lemma builtins_exposed:
  assumes "n \<in> set (py_split builtin_names)"
  shows "exposes module_namespace Pipe (Builtins, n) n"
proof -
  have ok: "loop_ok (py_split builtin_names)"
    by (simp add: split_builtin_names plain_def independent_def)
  have later: "list_all (\<lambda>n. independent ''print'' n \<and> independent ''join'' n
      \<and> list_all (\<lambda>m. independent m n) (py_split itertools_names)
      \<and> independent ''reduce'' n \<and> plain n) (py_split builtin_names)"
    by (simp add: split_builtin_names split_itertools_names plain_def independent_def)
  from later assms have a: "independent ''print'' n" and b: "independent ''join'' n"
    and c: "list_all (\<lambda>m. independent m n) (py_split itertools_names)"
    and d: "independent ''reduce'' n" and e: "plain n"
    by (auto simp: list_all_iff)
  have "exposes after_builtins Pipe (Builtins, n) n"
    unfolding after_builtins_def using ok assms by (rule loop_exposes)
  then have "exposes after_print Pipe (Builtins, n) n" using a e by (rule through_print)
  then have "exposes after_join Pipe (Builtins, n) n" using b by (rule through_join)
  then have "exposes after_itertools Pipe (Builtins, n) n" using c e by (rule through_itertools)
  then have "exposes after_reduce Pipe (Builtins, n) n" using d e by (rule through_reduce)
  then show ?thesis using e by (rule through_end)
qed

lemma factory_of_exposed:
  assumes "exposes ns d t n"
  shows "factory_of lib ns n = Some (decorate d (lib t))"
    and "factory_of lib ns (''p'' @ n) = Some (decorate d (lib t))"
  using assms by (auto simp: exposes_def factory_of_def split: option.splits)


subsection \<open>The claims\<close>

text \<open>
  C1 (the code departs from it). The docstring of \<^verbatim>\<open>pipe0\<close> states
  \<^verbatim>\<open>xs | pipe0(func)(a, b, c=d) = func(xs, a, b, c=d)\<close>, and its doctest pipes
  \<^verbatim>\<open>range(10)\<close> into \<^verbatim>\<open>add_if_less(6)\<close>, for \<^verbatim>\<open>def add_if_less(xs, n)\<close>, and shows \<^verbatim>\<open>15\<close>.
  On that input the code calls \<^verbatim>\<open>add_if_less(6, range(10))\<close>, the piped value last, and the
  call raises \<^verbatim>\<open>TypeError\<close>; the call \<^verbatim>\<open>add_if_less(range(10), 6)\<close> that the docstring
  announces returns \<^verbatim>\<open>15\<close>.
\<close>

theorem pipe0_docstring_example:
  "pipe_expr range10 (pipe0 add_if_less0) [PyInt 6] [] \<lparr>trace = [], st = ()\<rparr> =
     (Inl (object_not_iterable (PyInt 6)),
      \<lparr>trace = [\<lparr>pos = [PyInt 6, range10], kw = []\<rparr>], st = ()\<rparr>)
   \<and> fst (invoke add_if_less0 \<lparr>pos = [range10, PyInt 6], kw = []\<rparr> \<lparr>trace = [], st = ()\<rparr>) =
     Inr (PyInt 15)"
  by (simp add: pipe_expr_pipe0 invoke_def add_if_less0_def add_if_less_body_def range10_def
      object_not_iterable_def)

text \<open>
  C2. For every target function \<open>f\<close>, captured positional arguments \<open>a\<close>, \<open>b\<close>, captured
  keyword argument \<open>c = d\<close> and piped value \<open>x\<close>, the expression
  \<^verbatim>\<open>x | pipe(f)(a, b, c=d)\<close> makes the call \<^verbatim>\<open>f(a, b, x, c=d)\<close> and has its outcome: the
  piped value is the last positional argument.
\<close>

theorem pipe_appends_piped_value_last:
  "pipe_expr x (pipe f) [a, b] [(c, d)] w = invoke f \<lparr>pos = [a, b, x], kw = [(c, d)]\<rparr> w"
  by (simp add: pipe_expr_pipe)


text \<open>
  C4. Calling the function returned by \<^verbatim>\<open>pipe\<close>, \<^verbatim>\<open>pipe0\<close> or \<^verbatim>\<open>pipestar\<close> with any
  arguments, for any target function, raises nothing, returns a capture that holds the
  positional and the keyword arguments as given, and leaves the state as it was: the
  trace of calls to the target is unchanged, so the target was not called, and so is the
  state the target can see. This holds for a target that raises on every call too, so an
  error can only show when the capture is applied.
\<close>

theorem capture_creation_is_pure:
  "wrapper (pipe f) as ks w = (Inr \<lparr>args = as, kwargs = ks\<rparr>, w)
   \<and> wrapper (pipe0 f) as ks w = (Inr \<lparr>args = as, kwargs = ks\<rparr>, w)
   \<and> wrapper (pipestar f) as ks w = (Inr \<lparr>args = as, kwargs = ks\<rparr>, w)"
  by (simp add: pipe_def pipe0_def pipestar_def pipe_Wrapper_def pipe0_Wrapper_def
      pipestar_Wrapper_def)

text \<open>
  C5 (as stated it fails; the amended claim is proved). The claim says that, apart from
  a value that is not iterable piped into a capture of \<^verbatim>\<open>pipestar\<close>, every error observed
  is one raised by the target function. A lazy iterable that raises while \<^verbatim>\<open>*arg\<close> runs it
  refutes this: \<^verbatim>\<open>map(int, ['x'])\<close> is iterable, piping it into a capture of \<^verbatim>\<open>pipestar\<close>
  ends with the \<^verbatim>\<open>ValueError\<close> of the iteration, which is not the error for a value that
  is not iterable, and the target function has not been called.
\<close>

theorem raising_iterable_counterexample:
  "binary_or (Wrapper (pipestar add_if_less)) raising_map \<lparr>args = [PyInt 6], kwargs = []\<rparr>
      \<lparr>trace = [], st = ()\<rparr> = (Inl invalid_literal, \<lparr>trace = [], st = ()\<rparr>)
   \<and> py_iter (raising_map :: unit pyval) () = Some (Inl invalid_literal, ())
   \<and> invalid_literal \<noteq> not_iterable (raising_map :: unit pyval)"
  by (simp add: ror_pipestar raising_map_def invalid_literal_def not_iterable_def)

text \<open>
  C5, amended. The module raises by itself in one case only: piping a value that is not
  iterable into a capture of \<^verbatim>\<open>pipestar\<close> raises \<^verbatim>\<open>TypeError\<close>, with the target not called
  and the state unchanged; it is an error, not a silent return. Whenever the pipe operator
  on a capture of any of the three decorators ends with an exception, it is one of these:
  that case; or, under \<^verbatim>\<open>pipestar\<close>, the exception that the piped value raised while it was
  iterated, with the target not called; or the exception raised by the one call of the
  target function (under \<^verbatim>\<open>pipestar\<close> made in the state the iteration left). Creating a
  capture raises nothing.
\<close>

theorem only_spread_or_iteration_raises:
  "(py_iter x (st w) = None \<longrightarrow>
      binary_or (Wrapper (pipestar f)) x self w = (Inl (not_iterable x), w))
   \<and> (binary_or (Wrapper (decorate d f)) x self w = (Inl e, w') \<longrightarrow>
        (d = Pipestar \<and> py_iter x (st w) = None \<and> e = not_iterable x \<and> w' = w)
        \<or> (d = Pipestar \<and> py_iter x (st w) = Some (Inl e, st w') \<and> trace w' = trace w)
        \<or> (d = Pipestar \<and> (\<exists>xs s1. py_iter x (st w) = Some (Inr xs, s1)
              \<and> trace w' = trace w @ [\<lparr>pos = args self @ xs, kw = kwargs self\<rparr>]
              \<and> f \<lparr>pos = args self @ xs, kw = kwargs self\<rparr> s1 = (Inl e, st w')))
        \<or> ((d = Pipe \<or> d = Pipe0)
              \<and> trace w' = trace w @ [\<lparr>pos = args self @ [x], kw = kwargs self\<rparr>]
              \<and> f \<lparr>pos = args self @ [x], kw = kwargs self\<rparr> (st w) = (Inl e, st w')))
   \<and> (\<exists>self. wrapper (decorate d f) as ks w = (Inr self, w))"
proof (intro conjI impI)
  assume "py_iter x (st w) = None"
  then show "binary_or (Wrapper (pipestar f)) x self w = (Inl (not_iterable x), w)"
    by (simp add: ror_pipestar)
next
  assume a: "binary_or (Wrapper (decorate d f)) x self w = (Inl e, w')"
  show "(d = Pipestar \<and> py_iter x (st w) = None \<and> e = not_iterable x \<and> w' = w)
        \<or> (d = Pipestar \<and> py_iter x (st w) = Some (Inl e, st w') \<and> trace w' = trace w)
        \<or> (d = Pipestar \<and> (\<exists>xs s1. py_iter x (st w) = Some (Inr xs, s1)
              \<and> trace w' = trace w @ [\<lparr>pos = args self @ xs, kw = kwargs self\<rparr>]
              \<and> f \<lparr>pos = args self @ xs, kw = kwargs self\<rparr> s1 = (Inl e, st w')))
        \<or> ((d = Pipe \<or> d = Pipe0)
              \<and> trace w' = trace w @ [\<lparr>pos = args self @ [x], kw = kwargs self\<rparr>]
              \<and> f \<lparr>pos = args self @ [x], kw = kwargs self\<rparr> (st w) = (Inl e, st w'))"
  proof (cases d)
    case Pipe
    with a show ?thesis by (auto simp: decorate_def ror_pipe invoke_eq)
  next
    case Pipe0
    with a show ?thesis by (auto simp: decorate_def ror_pipe0 invoke_eq)
  next
    case Pipestar
    show ?thesis
    proof (cases "py_iter x (st w)")
      case None
      with a Pipestar show ?thesis by (auto simp: decorate_def ror_pipestar)
    next
      case (Some p)
      obtain q s1 where p: "p = (q, s1)" by (cases p)
      show ?thesis
      proof (cases q)
        case (Inl e')
        with a Pipestar Some p show ?thesis by (auto simp: decorate_def ror_pipestar)
      next
        case (Inr xs)
        with a Pipestar Some p show ?thesis
          by (auto simp: decorate_def ror_pipestar invoke_eq)
      qed
    qed
  qed
next
  show "\<exists>self. wrapper (decorate d f) as ks w = (Inr self, w)"
    by (simp add: wrapper_decorate)
qed

theorem only_spread_or_iteration_raises_witness:
  "py_iter (PyInt 5) () = None
   \<and> binary_or (Wrapper (pipestar add_if_less)) (PyInt 5) \<lparr>args = [PyInt 6], kwargs = []\<rparr>
        \<lparr>trace = [], st = ()\<rparr> = (Inl (not_iterable (PyInt 5 :: unit pyval)), \<lparr>trace = [], st = ()\<rparr>)
   \<and> binary_or (Wrapper (decorate Pipe add_if_less)) (PyInt 3) \<lparr>args = [PyInt 6], kwargs = []\<rparr>
        \<lparr>trace = [], st = ()\<rparr> =
       (Inl (object_not_iterable (PyInt 3 :: unit pyval)),
        \<lparr>trace = [\<lparr>pos = [PyInt 6, PyInt 3], kw = []\<rparr>], st = ()\<rparr>)
   \<and> add_if_less \<lparr>pos = [PyInt 6, PyInt 3], kw = []\<rparr> () =
       (Inl (object_not_iterable (PyInt 3 :: unit pyval)), ())
   \<and> binary_or (Wrapper (decorate Pipestar add_if_less)) raising_map
        \<lparr>args = [PyInt 6], kwargs = []\<rparr> \<lparr>trace = [], st = ()\<rparr> =
       (Inl invalid_literal, \<lparr>trace = [], st = ()\<rparr>)
   \<and> py_iter (raising_map :: unit pyval) () = Some (Inl invalid_literal, ())"
proof -
  have g: "binary_or (Wrapper (decorate Pipestar add_if_less)) raising_map
      \<lparr>args = [PyInt 6], kwargs = []\<rparr> \<lparr>trace = [], st = ()\<rparr> =
       (Inl invalid_literal, \<lparr>trace = [], st = ()\<rparr>)"
    by (simp add: decorate_def ror_pipestar raising_map_def)
  note v = only_spread_or_iteration_raises [where x = raising_map and f = add_if_less
      and d = Pipestar and self = "\<lparr>args = [PyInt 6], kwargs = []\<rparr>"
      and w = "\<lparr>trace = [], st = ()\<rparr>" and e = invalid_literal
      and w' = "\<lparr>trace = [], st = ()\<rparr>"]
  from v g have 3: "py_iter (raising_map :: unit pyval) () = Some (Inl invalid_literal, ())"
    by (simp add: raising_map_def invalid_literal_def not_iterable_def)
  have h: "binary_or (Wrapper (decorate Pipe add_if_less)) (PyInt 3)
      \<lparr>args = [PyInt 6], kwargs = []\<rparr> \<lparr>trace = [], st = ()\<rparr> =
       (Inl (object_not_iterable (PyInt 3 :: unit pyval)),
        \<lparr>trace = [\<lparr>pos = [PyInt 6, PyInt 3], kw = []\<rparr>], st = ()\<rparr>)"
    by (simp add: decorate_def ror_pipe invoke_def add_if_less_def add_if_less_body_def
        object_not_iterable_def)
  have n: "py_iter (PyInt 5 :: unit pyval) () = None" by simp
  note t = only_spread_or_iteration_raises [where x = "PyInt 5" and f = add_if_less
      and self = "\<lparr>args = [PyInt 6], kwargs = []\<rparr>" and w = "\<lparr>trace = [], st = ()\<rparr>"]
  note u = only_spread_or_iteration_raises [where x = "PyInt 3" and f = add_if_less and d = Pipe
      and self = "\<lparr>args = [PyInt 6], kwargs = []\<rparr>" and w = "\<lparr>trace = [], st = ()\<rparr>"
      and e = "object_not_iterable (PyInt 3 :: unit pyval)"
      and w' = "\<lparr>trace = [\<lparr>pos = [PyInt 6, PyInt 3], kw = []\<rparr>], st = ()\<rparr>"]
  from t n have 1: "binary_or (Wrapper (pipestar add_if_less)) (PyInt 5)
      \<lparr>args = [PyInt 6], kwargs = []\<rparr> \<lparr>trace = [], st = ()\<rparr> =
      (Inl (not_iterable (PyInt 5 :: unit pyval)), \<lparr>trace = [], st = ()\<rparr>)"
    by simp
  from u h have 2: "add_if_less \<lparr>pos = [PyInt 6, PyInt 3], kw = []\<rparr> () =
       (Inl (object_not_iterable (PyInt 3 :: unit pyval)), ())"
    by (simp add: object_not_iterable_def)
  from n 1 h 2 g 3 show ?thesis by (simp add: object_not_iterable_def not_iterable_def)
qed

text \<open>
  C6. When the pipe operator applies a capture (under \<^verbatim>\<open>pipestar\<close>: when the piped value
  is iterable and its iteration ends without raising), the target function is called
  exactly once within the operation, with the assembled arguments, and the outcome of the
  operator is the outcome of that call: the value it returned, as it is, or the exception
  it raised, as it is, together with the state the call left. The call is made in the
  state the operator started in; under \<^verbatim>\<open>pipestar\<close> in the state the iteration left.
\<close>

theorem pipe_returns_target_outcome:
  assumes "binary_or (Wrapper (decorate d f)) x self w = (r, w')"
    and "d = Pipestar \<longrightarrow> py_iter x (st w) = Some (Inr xs, s1)"
  shows "trace w' = trace w @ [\<lparr>pos = args self @ (case d of Pipestar \<Rightarrow> xs | _ \<Rightarrow> [x]), kw = kwargs self\<rparr>]
    \<and> f \<lparr>pos = args self @ (case d of Pipestar \<Rightarrow> xs | _ \<Rightarrow> [x]), kw = kwargs self\<rparr>
        (case d of Pipestar \<Rightarrow> s1 | _ \<Rightarrow> st w) = (r, st w')"
  using assms
  by (cases d) (auto simp: decorate_def ror_pipe ror_pipe0 ror_pipestar invoke_eq)

theorem pipe_returns_target_outcome_witness:
  "binary_or (Wrapper (decorate Pipestar add_if_less)) (PyList [PyInt 6, range10])
      \<lparr>args = [], kwargs = []\<rparr> \<lparr>trace = [], st = ()\<rparr> =
     (Inr (PyInt 15), \<lparr>trace = [\<lparr>pos = [PyInt 6, range10], kw = []\<rparr>], st = ()\<rparr>)
   \<and> py_iter (PyList [PyInt 6, range10]) () = Some (Inr [PyInt 6, range10], ())
   \<and> add_if_less \<lparr>pos = [PyInt 6, range10], kw = []\<rparr> () = (Inr (PyInt 15), ())"
proof -
  have h: "binary_or (Wrapper (decorate Pipestar add_if_less)) (PyList [PyInt 6, range10])
      \<lparr>args = [], kwargs = []\<rparr> \<lparr>trace = [], st = ()\<rparr> =
     (Inr (PyInt 15), \<lparr>trace = [\<lparr>pos = [PyInt 6, range10], kw = []\<rparr>], st = ()\<rparr>)"
    by (simp add: decorate_def ror_pipestar invoke_def add_if_less_def add_if_less_body_def
        range10_def)
  have i: "Pipestar = Pipestar \<longrightarrow>
      py_iter (PyList [PyInt 6, range10]) (st \<lparr>trace = [], st = ()\<rparr>) =
        Some (Inr [PyInt 6, range10], ())"
    by simp
  show ?thesis
    using h pipe_returns_target_outcome [OF h i] by simp
qed

text \<open>
  C7. A capture created by any of the three decorators is not callable: the class
  \<^verbatim>\<open>Wrapper\<close> has no \<^verbatim>\<open>__call__\<close>, so calling a capture raises \<^verbatim>\<open>TypeError\<close> and leaves
  the state unchanged. The target function is not called; only the pipe operator applies
  it.
\<close>

theorem capture_is_not_callable:
  "call_object (Wrapper (pipe f)) self c w = (Inl not_callable, w)
   \<and> call_object (Wrapper (pipe0 f)) self c w = (Inl not_callable, w)
   \<and> call_object (Wrapper (pipestar f)) self c w = (Inl not_callable, w)"
  by (simp add: call_object_def pipe_def pipe0_def pipestar_def pipe_Wrapper_def
      pipe0_Wrapper_def pipestar_Wrapper_def)

text \<open>
  C8. \<^verbatim>\<open>pipe0\<close> and \<^verbatim>\<open>pipe\<close> cannot be told apart: for every target function, captured
  arguments, piped value and state, creating the capture, applying the pipe operator to
  it, and the whole expression \<^verbatim>\<open>x | pipe0(f)(*as, **ks)\<close> have the outcome they have with
  \<^verbatim>\<open>pipe\<close> in the place of \<^verbatim>\<open>pipe0\<close>.
\<close>

theorem pipe0_behaves_as_pipe:
  "wrapper (pipe0 f) as ks w = wrapper (pipe f) as ks w
   \<and> binary_or (Wrapper (pipe0 f)) x self w = binary_or (Wrapper (pipe f)) x self w
   \<and> pipe_expr x (pipe0 f) as ks w = pipe_expr x (pipe f) as ks w"
  by (simp add: pipe_expr_pipe pipe_expr_pipe0 ror_pipe ror_pipe0 pipe_def pipe0_def
      pipe_Wrapper_def pipe0_Wrapper_def)

text \<open>
  C9 (the code departs from it). In the imported module the name \<^verbatim>\<open>preduce\<close> stands for
  \<^verbatim>\<open>pipe(functools.reduce)\<close>, for any library. The comment at lines 133 and 134 says that
  an initial value has to be passed as a keyword argument. With \<^verbatim>\<open>functools.reduce\<close> as
  CPython implements it up to version 3.13, \<^verbatim>\<open>[1, 2, 3] | preduce(operator.add, initial=10)\<close>
  makes the call \<^verbatim>\<open>reduce(operator.add, [1, 2, 3], initial=10)\<close>, which raises
  \<^verbatim>\<open>TypeError\<close>; the fold of \<^verbatim>\<open>operator.add\<close> over \<^verbatim>\<open>[1, 2, 3]\<close> starting from \<^verbatim>\<open>10\<close>,
  which the direct call \<^verbatim>\<open>reduce(operator.add, [1, 2, 3], 10)\<close> returns, is \<^verbatim>\<open>16\<close>.
\<close>

theorem preduce_keyword_initial_raises:
  "factory_of lib module_namespace ''preduce'' = Some (pipe (lib (Functools, ''reduce'')))
   \<and> pipe_expr (PyList [PyInt 1, PyInt 2, PyInt 3]) (pipe (functools_reduce call_operator_add))
        [PyBuiltin ''add''] [(''initial'', PyInt 10)] \<lparr>trace = [], st = ()\<rparr> =
       (Inl no_keyword_arguments,
        \<lparr>trace = [\<lparr>pos = [PyBuiltin ''add'', PyList [PyInt 1, PyInt 2, PyInt 3]],
                    kw = [(''initial'', PyInt 10)]\<rparr>], st = ()\<rparr>)
   \<and> functools_reduce call_operator_add
        \<lparr>pos = [PyBuiltin ''add'', PyList [PyInt 1, PyInt 2, PyInt 3], PyInt 10], kw = []\<rparr> () =
       (Inr (PyInt 16), ())"
  using factory_of_exposed(2) [OF reduce_exposed, of lib]
  by (simp add: decorate_def pipe_expr_pipe invoke_def functools_reduce_def
      call_operator_add_def)

text \<open>
  C10. In the namespace of the imported module, each of the listed library functions
  is bound under its own name and under that name with \<^verbatim>\<open>p\<close> in front, both names are
  bound to one and the same object, and this object is the result of wrapping that
  library function (with \<^verbatim>\<open>pipestar\<close> for \<^verbatim>\<open>print\<close>, with \<^verbatim>\<open>pipe\<close> for the others).
\<close>

theorem registration_table:
  "list_all (\<lambda>(d, t, n). exposes module_namespace d t n)
     [(Pipe, (Builtins, ''all''), ''all''), (Pipe, (Builtins, ''any''), ''any''),
      (Pipe, (Builtins, ''enumerate''), ''enumerate''), (Pipe, (Builtins, ''filter''), ''filter''),
      (Pipe, (Builtins, ''len''), ''len''), (Pipe, (Builtins, ''map''), ''map''),
      (Pipe, (Builtins, ''min''), ''min''), (Pipe, (Builtins, ''max''), ''max''),
      (Pipe, (Builtins, ''reversed''), ''reversed''), (Pipe, (Builtins, ''set''), ''set''),
      (Pipe, (Builtins, ''sum''), ''sum''), (Pipe, (Builtins, ''tuple''), ''tuple''),
      (Pipe, (Builtins, ''zip''), ''zip''), (Pipestar, (Builtins, ''print''), ''print''),
      (Pipe, (StrType, ''join''), ''join''),
      (Pipe, (Itertools, ''accumulate''), ''accumulate''), (Pipe, (Itertools, ''chain''), ''chain''),
      (Pipe, (Itertools, ''compress''), ''compress''), (Pipe, (Itertools, ''cycle''), ''cycle''),
      (Pipe, (Itertools, ''dropwhile''), ''dropwhile''),
      (Pipe, (Itertools, ''filterfalse''), ''filterfalse''),
      (Pipe, (Itertools, ''groupby''), ''groupby''), (Pipe, (Itertools, ''product''), ''product''),
      (Pipe, (Itertools, ''repeat''), ''repeat''), (Pipe, (Itertools, ''starmap''), ''starmap''),
      (Pipe, (Itertools, ''takewhile''), ''takewhile''), (Pipe, (Itertools, ''tee''), ''tee''),
      (Pipe, (Itertools, ''zip_longest''), ''zip_longest''),
      (Pipe, (Functools, ''reduce''), ''reduce'')]"
  by (simp add: builtins_exposed itertools_exposed print_exposed join_exposed reduce_exposed
      split_builtin_names split_itertools_names)

end
